theory Spec2Isabelle
  imports Complex_Main
begin

section \<open>The relay handlers of offlinetube\<close>

text \<open>
  The repository is six HTTP route handlers, each forwarding one inbound request to a
  backend at a fixed origin and mapping the outcome to an outbound response:
  \<^item> \<^verbatim>\<open>api/library/route.ts\<close>, \<open>GET\<close>: the library listing;
  \<^item> \<^verbatim>\<open>api/search/route.ts\<close>, \<open>GET\<close>: the search, with query parameters \<open>q\<close> and
    \<open>max_results\<close>;
  \<^item> the trending route, \<open>GET\<close>;
  \<^item> \<^verbatim>\<open>api/video/info/route.ts\<close>, \<open>GET\<close>: the video information, with query parameter
    \<open>url\<close>;
  \<^item> the streaming route, \<open>GET\<close>, with path parameter \<open>filename\<close>;
  \<^item> the deletion route, \<open>DELETE\<close>, with path parameter \<open>filename\<close>.

  A handler is embedded as a function from its environment (what \<open>fetch\<close> answers and
  what \<open>JSON.parse\<close> decodes) and its inbound parameters to an outcome: the response
  it returns (or the exception that leaves it), the outbound calls it made and the lines
  it logged, in order.
\<close>

subsection \<open>Strings, JSON values and JavaScript truthiness\<close>

text \<open>
  A string is its UTF-8 byte sequence (\<open>char\<close> is a byte). The values of a
  \<open>URLSearchParams\<close> and of HTTP headers are scalar-value strings, which UTF-8 represents
  one to one.

  A number as JavaScript holds it after \<open>JSON.parse\<close>: a finite value, kept as a
  rational (rounding the literal to a double is the decoder's work), or an infinity, which
  the decoder delivers for a literal out of the double range such as \<open>1e400\<close>.
  \<open>JSON.parse\<close> never delivers \<open>NaN\<close>.
\<close>

datatype js_number = Finite rat | PosInfinity | NegInfinity

text \<open>
  A JSON value as \<open>JSON.parse\<close> delivers it. An object is the list of its entries; the
  decoder delivers each key once.
\<close>

datatype json =
    JNull
  | JBool bool
  | JNum js_number
  | JStr string
  | JArr "json list"
  | JObj "(string \<times> json) list"

text \<open>The exceptions the platform raises in these handlers.\<close>

datatype exn =
    FetchFailed   \<comment> \<open>\<open>fetch\<close> rejects: network failure, connection refused\<close>
  | SyntaxError   \<comment> \<open>\<open>response.json()\<close> rejects: the body is not JSON\<close>
  | TypeError     \<comment> \<open>property read on \<open>null\<close>; a body with a null-body status\<close>
  | RangeError    \<comment> \<open>a response status outside 200..599\<close>

definition bind_exn :: "exn + 'a \<Rightarrow> ('a \<Rightarrow> exn + 'b) \<Rightarrow> exn + 'b" where
  "bind_exn m f = (case m of Inl e \<Rightarrow> Inl e | Inr x \<Rightarrow> f x)"

text \<open>\<open>!s\<close> on a \<open>string | null\<close>: \<open>null\<close> and the empty string are falsy.\<close>

fun truthy_string :: "string option \<Rightarrow> bool" where
  "truthy_string None = False"
| "truthy_string (Some s) = (s \<noteq> [])"

text \<open>\<open>s || d\<close> on a \<open>string | null\<close>.\<close>

fun or_string :: "string option \<Rightarrow> string \<Rightarrow> string" where
  "or_string None d = d"
| "or_string (Some s) d = (if s = [] then d else s)"

text \<open>Truthiness of a JSON value: \<open>null\<close>, \<open>false\<close>, \<open>0\<close> and \<open>""\<close> are falsy.\<close>

fun truthy :: "json \<Rightarrow> bool" where
  "truthy JNull = False"
| "truthy (JBool b) = b"
| "truthy (JNum n) = (n \<noteq> Finite 0)"
| "truthy (JStr s) = (s \<noteq> [])"
| "truthy (JArr xs) = True"
| "truthy (JObj fs) = True"

text \<open>
  \<open>errorData.detail\<close>: reading a property of \<open>null\<close> raises a \<open>TypeError\<close>; an object
  gives the entry or \<open>undefined\<close> (\<open>None\<close>); a boolean, number, string or array has no
  property of that name.
\<close>

fun get_detail :: "json \<Rightarrow> exn + json option" where
  "get_detail JNull = Inl TypeError"
| "get_detail (JObj fs) = Inr (map_of fs ''detail'')"
| "get_detail (JBool b) = Inr None"
| "get_detail (JNum n) = Inr None"
| "get_detail (JStr s) = Inr None"
| "get_detail (JArr xs) = Inr None"

text \<open>\<open>v || d\<close> where \<open>v\<close> may be \<open>undefined\<close>.\<close>

fun or_json :: "json option \<Rightarrow> json \<Rightarrow> json" where
  "or_json None d = d"
| "or_json (Some v) d = (if truthy v then v else d)"

subsection \<open>\<open>encodeURIComponent\<close>\<close>

text \<open>
  Every byte of the UTF-8 encoding is written as \<open>%XX\<close> in upper-case hexadecimal,
  except the letters, the digits and \<^verbatim>\<open>- _ . ! ~ * ' ( )\<close>.
\<close>

definition uri_unreserved :: "char \<Rightarrow> bool" where
  "uri_unreserved c \<longleftrightarrow>
     c \<in> set ''ABCDEFGHIJKLMNOPQRSTUVWXYZabcdefghijklmnopqrstuvwxyz0123456789-_.!~*()''
     \<or> c = CHR 0x27"

definition hex_digit :: "nat \<Rightarrow> char" where
  "hex_digit n = ''0123456789ABCDEF'' ! (n mod 16)"

definition percent_encode :: "char \<Rightarrow> string" where
  "percent_encode c =
     [CHR ''%'', hex_digit ((of_char c :: nat) div 16), hex_digit ((of_char c :: nat) mod 16)]"

definition encodeURIComponent :: "string \<Rightarrow> string" where
  "encodeURIComponent s =
     concat (map (\<lambda>c. if uri_unreserved c then [c] else percent_encode c) s)"

subsection \<open>Headers, requests and responses\<close>

text \<open>
  A \<open>Headers\<close> object: the list of its entries, names in lower case as the platform
  stores them. \<open>get\<close> and \<open>set\<close> match names without regard to case.
\<close>

type_synonym headers = "(string \<times> string) list"

definition ascii_lower :: "char \<Rightarrow> char" where
  "ascii_lower c =
     (case map_of (zip ''ABCDEFGHIJKLMNOPQRSTUVWXYZ'' ''abcdefghijklmnopqrstuvwxyz'') c of
        None \<Rightarrow> c
      | Some l \<Rightarrow> l)"

definition headers_get :: "headers \<Rightarrow> string \<Rightarrow> string option" where
  "headers_get h name = map_of h (map ascii_lower name)"

fun headers_put :: "headers \<Rightarrow> string \<Rightarrow> string \<Rightarrow> headers" where
  "headers_put [] k v = [(k, v)]"
| "headers_put ((k', v') # h) k v =
     (if k' = k then (k, v) # h else (k', v') # headers_put h k v)"

definition headers_set :: "headers \<Rightarrow> string \<Rightarrow> string \<Rightarrow> headers" where
  "headers_set h name v = headers_put h (map ascii_lower name) v"

text \<open>The outbound call: \<open>fetch(url)\<close> or \<open>fetch(url, { method: 'DELETE' })\<close>.\<close>

datatype http_method = HTTP_GET | HTTP_DELETE

record fetch_request =
  req_method :: http_method
  url :: string

text \<open>What \<open>fetch\<close> resolves with: the backend's status, headers and body.\<close>

record fetch_response =
  status :: nat
  headers :: headers
  body :: string

datatype fetch_outcome = Rejected | Resolved fetch_response

text \<open>
  The environment of a handler: the backend behind \<open>fetch\<close>, and the platform's JSON
  decoder (\<open>None\<close> where the text is not JSON).
\<close>

record env =
  fetch :: "fetch_request \<Rightarrow> fetch_outcome"
  json_parse :: "string \<Rightarrow> json option"

definition await_fetch :: "env \<Rightarrow> fetch_request \<Rightarrow> exn + fetch_response" where
  "await_fetch e req = (case fetch e req of Rejected \<Rightarrow> Inl FetchFailed | Resolved r \<Rightarrow> Inr r)"

text \<open>\<open>response.ok\<close>: the status is in 200..299.\<close>

definition ok :: "fetch_response \<Rightarrow> bool" where
  "ok r \<longleftrightarrow> 200 \<le> status r \<and> status r \<le> 299"

text \<open>\<open>await response.json()\<close>.\<close>

definition response_json :: "env \<Rightarrow> fetch_response \<Rightarrow> exn + json" where
  "response_json e r = (case json_parse e (body r) of None \<Rightarrow> Inl SyntaxError | Some j \<Rightarrow> Inr j)"

text \<open>The response a handler returns: a JSON document or a byte stream.\<close>

datatype payload = JsonBody json | StreamBody string

record http_response =
  out_status :: nat
  out_headers :: headers
  out_body :: payload

text \<open>
  \<open>JSON.stringify\<close> on a value that \<open>JSON.parse\<close> delivered: the document written is
  the value itself, except that an infinity is written as \<open>null\<close>, at any depth.
\<close>

fun stringify_number :: "js_number \<Rightarrow> json" where
  "stringify_number (Finite x) = JNum (Finite x)"
| "stringify_number PosInfinity = JNull"
| "stringify_number NegInfinity = JNull"

primrec JSON_stringify :: "json \<Rightarrow> json" where
  "JSON_stringify JNull = JNull"
| "JSON_stringify (JBool b) = JBool b"
| "JSON_stringify (JNum n) = stringify_number n"
| "JSON_stringify (JStr s) = JStr s"
| "JSON_stringify (JArr xs) = JArr (map JSON_stringify xs)"
| "JSON_stringify (JObj fs) = JObj (map (map_prod id JSON_stringify) fs)"

text \<open>A value without an infinity, at any depth.\<close>

primrec finite_numbers :: "json \<Rightarrow> bool" where
  "finite_numbers JNull = True"
| "finite_numbers (JBool b) = True"
| "finite_numbers (JNum n) = (n \<noteq> PosInfinity \<and> n \<noteq> NegInfinity)"
| "finite_numbers (JStr s) = True"
| "finite_numbers (JArr xs) = list_all id (map finite_numbers xs)"
| "finite_numbers (JObj fs) = list_all snd (map (map_prod id finite_numbers) fs)"

text \<open>
  \<open>NextResponse.json(data, { status })\<close> is \<open>Response.json\<close>: the data are written with
  \<open>JSON.stringify\<close>, and the initialisation of the response raises a \<open>RangeError\<close> for a
  status outside 200..599 and a \<open>TypeError\<close> for a body with a null-body status (101,
  103, 204, 205, 304). Otherwise the response carries the status, the JSON content type
  and the document written.
\<close>

definition null_body_status :: "nat \<Rightarrow> bool" where
  "null_body_status s \<longleftrightarrow> s \<in> {101, 103, 204, 205, 304}"

definition json_response :: "json \<Rightarrow> nat \<Rightarrow> http_response" where
  "json_response data s =
     \<lparr>out_status = s,
      out_headers = [(''content-type'', ''application/json'')],
      out_body = JsonBody data\<rparr>"

definition NextResponse_json :: "json \<Rightarrow> nat \<Rightarrow> exn + http_response" where
  "NextResponse_json data s =
     (if s < 200 \<or> 599 < s then Inl RangeError
      else if null_body_status s then Inl TypeError
      else Inr (json_response (JSON_stringify data) s))"

text \<open>The envelope \<open>{ error: m }\<close>.\<close>

definition error_body :: "json \<Rightarrow> json" where
  "error_body m = JObj [(''error'', m)]"

subsection \<open>Outcome of a handler\<close>

text \<open>
  \<open>result\<close> is the response returned, or \<open>Inl\<close> the exception that leaves the handler;
  \<open>calls\<close> are the outbound requests made; \<open>logs\<close> are the \<open>console.error\<close> lines, each a
  label and the exception caught.
\<close>

record outcome =
  result :: "exn + http_response"
  calls :: "fetch_request list"
  logs :: "(string \<times> exn) list"

text \<open>
  The \<open>try { ... } catch (error) { console.error(label, error); return 500 }\<close> that
  wraps every handler's outbound call. \<open>cs\<close> are the calls the guarded block made.
\<close>

definition try_catch ::
  "string \<Rightarrow> string \<Rightarrow> fetch_request list \<Rightarrow> exn + http_response \<Rightarrow> outcome" where
  "try_catch label msg cs block =
     (case block of
        Inr resp \<Rightarrow> \<lparr>result = Inr resp, calls = cs, logs = []\<rparr>
      | Inl e \<Rightarrow>
          \<lparr>result = NextResponse_json (error_body (JStr msg)) 500,
           calls = cs,
           logs = [(label, e)]\<rparr>)"

subsection \<open>The handlers\<close>

definition BACKEND_URL :: string where
  "BACKEND_URL = ''http://localhost:8001''"

text \<open>\<open>searchParams.get(name)\<close>: the first value under the name, or \<open>null\<close>.\<close>

definition searchParams_get :: "(string \<times> string) list \<Rightarrow> string \<Rightarrow> string option" where
  "searchParams_get ps name = map_of ps name"

text \<open>\<^verbatim>\<open>api/library/route.ts\<close>\<close>

definition library_GET :: "env \<Rightarrow> outcome" where
  "library_GET e =
     (let req = \<lparr>req_method = HTTP_GET, url = BACKEND_URL @ ''/api/library''\<rparr>
      in try_catch ''Library API error:'' ''Failed to get library'' [req]
           (bind_exn (await_fetch e req) (\<lambda>response.
            bind_exn (response_json e response) (\<lambda>data.
            NextResponse_json data 200))))"

text \<open>The trending route.\<close>

definition trending_GET :: "env \<Rightarrow> outcome" where
  "trending_GET e =
     (let req = \<lparr>req_method = HTTP_GET, url = BACKEND_URL @ ''/api/trending''\<rparr>
      in try_catch ''Trending API error:'' ''Failed to get trending videos'' [req]
           (bind_exn (await_fetch e req) (\<lambda>response.
            bind_exn (response_json e response) (\<lambda>data.
            NextResponse_json data 200))))"

text \<open>
  \<^verbatim>\<open>api/search/route.ts\<close>. Past the check \<open>!q\<close> the parameter is a non-empty string, and
  \<open>or_string q []\<close> is that string. \<open>maxResults\<close> enters the URL as it is.
\<close>

definition search_GET :: "env \<Rightarrow> (string \<times> string) list \<Rightarrow> outcome" where
  \<open>search_GET e searchParams =
     (let q = searchParams_get searchParams ''q'';
          maxResults = or_string (searchParams_get searchParams ''max_results'') ''20''
      in if \<not> truthy_string q then
           \<lparr>result = NextResponse_json
                       (error_body (JStr ''Query parameter "q" is required'')) 400,
            calls = [],
            logs = []\<rparr>
         else
           (let req = \<lparr>req_method = HTTP_GET,
                       url = BACKEND_URL @ ''/api/search?q='' @ encodeURIComponent (or_string q [])
                             @ ''&max_results='' @ maxResults\<rparr>
            in try_catch ''Search API error:'' ''Failed to search videos'' [req]
                 (bind_exn (await_fetch e req) (\<lambda>response.
                  bind_exn (response_json e response) (\<lambda>data.
                  NextResponse_json data 200)))))\<close>

text \<open>
  \<^verbatim>\<open>api/video/info/route.ts\<close>. On a backend status outside 200..299 the rejection of
  \<open>response.json()\<close> is replaced by \<open>{ detail: 'Unknown error' }\<close>; the property read
  and the construction of the response are inside the handler's \<open>try\<close>.
\<close>

definition video_info_GET :: "env \<Rightarrow> (string \<times> string) list \<Rightarrow> outcome" where
  "video_info_GET e searchParams =
     (let url_param = searchParams_get searchParams ''url''
      in if \<not> truthy_string url_param then
           \<lparr>result = NextResponse_json (error_body (JStr ''URL parameter is required'')) 400,
            calls = [],
            logs = []\<rparr>
         else
           (let req = \<lparr>req_method = HTTP_GET,
                       url = BACKEND_URL @ ''/api/video/info?url=''
                             @ encodeURIComponent (or_string url_param [])\<rparr>
            in try_catch ''Video info API error:'' ''Failed to get video information'' [req]
                 (bind_exn (await_fetch e req) (\<lambda>response.
                  if \<not> ok response then
                    (let errorData =
                           (case response_json e response of
                              Inl _ \<Rightarrow> JObj [(''detail'', JStr ''Unknown error'')]
                            | Inr j \<Rightarrow> j)
                     in bind_exn (get_detail errorData) (\<lambda>detail.
                        NextResponse_json
                          (error_body (or_json detail (JStr ''Failed to get video info'')))
                          (status response)))
                  else
                    bind_exn (response_json e response) (\<lambda>data.
                    NextResponse_json data 200)))))"

text \<open>
  The streaming route. \<open>new Response(response.body, { status: 200, headers })\<close> carries
  the backend's bytes as they are.
\<close>

definition stream_GET :: "env \<Rightarrow> string \<Rightarrow> outcome" where
  "stream_GET e filename =
     (let req = \<lparr>req_method = HTTP_GET,
                 url = BACKEND_URL @ ''/api/stream/'' @ encodeURIComponent filename\<rparr>
      in try_catch ''Stream API error:'' ''Failed to stream video'' [req]
           (bind_exn (await_fetch e req) (\<lambda>response.
            if \<not> ok response then
              NextResponse_json (error_body (JStr ''Video not found'')) 404
            else
              (let contentType =
                     or_string (headers_get (headers response) ''content-type'') ''video/mp4'';
                   contentLength = headers_get (headers response) ''content-length'';
                   h0 = headers_set [] ''Content-Type'' contentType;
                   h1 = (if truthy_string contentLength
                         then headers_set h0 ''Content-Length'' (or_string contentLength [])
                         else h0);
                   h2 = headers_set h1 ''Accept-Ranges'' ''bytes''
               in Inr \<lparr>out_status = 200,
                       out_headers = h2,
                       out_body = StreamBody (body response)\<rparr>))))"

text \<open>The deletion route.\<close>

definition library_DELETE :: "env \<Rightarrow> string \<Rightarrow> outcome" where
  "library_DELETE e filename =
     (let req = \<lparr>req_method = HTTP_DELETE,
                 url = BACKEND_URL @ ''/api/library/'' @ encodeURIComponent filename\<rparr>
      in try_catch ''Delete video API error:'' ''Failed to delete video'' [req]
           (bind_exn (await_fetch e req) (\<lambda>response.
            bind_exn (response_json e response) (\<lambda>data.
            NextResponse_json data 200))))"

subsection \<open>A backend with one fixed answer\<close>

text \<open>
  The environment used to run the handlers on concrete inputs: \<open>fetch\<close> gives the same
  outcome for every request, and the decoder is the table of the bodies that are JSON.
\<close>

definition fixed_env :: "fetch_outcome \<Rightarrow> (string \<times> json) list \<Rightarrow> env" where
  "fixed_env out table = \<lparr>fetch = (\<lambda>req. out), json_parse = map_of table\<rparr>"

section \<open>Properties\<close>

subsection \<open>Platform facts used throughout\<close>

lemmas platform_defs =
  try_catch_def bind_exn_def await_fetch_def response_json_def NextResponse_json_def
  null_body_status_def searchParams_get_def

text \<open>The four statuses the handlers write themselves are accepted by the platform.\<close>

lemma NextResponse_json_fixed:
  "NextResponse_json data 200 = Inr (json_response (JSON_stringify data) 200)"
  "NextResponse_json data 400 = Inr (json_response (JSON_stringify data) 400)"
  "NextResponse_json data 404 = Inr (json_response (JSON_stringify data) 404)"
  "NextResponse_json data 500 = Inr (json_response (JSON_stringify data) 500)"
  by (simp_all add: NextResponse_json_def null_body_status_def)

text \<open>Writing a value without an infinity gives the value back.\<close>

lemma stringify_number_finite:
  "n \<noteq> PosInfinity \<Longrightarrow> n \<noteq> NegInfinity \<Longrightarrow> stringify_number n = JNum n"
  by (cases n) simp_all

lemma JSON_stringify_finite: "finite_numbers j \<Longrightarrow> JSON_stringify j = j"
proof (induction j)
  case (JNum n)
  then show ?case by (simp add: stringify_number_finite)
next
  case (JArr xs)
  then have "\<forall>x \<in> set xs. JSON_stringify x = x"
    by (simp add: list_all_iff)
  then show ?case by (simp add: map_idI)
next
  case (JObj fs)
  then have "\<forall>kv \<in> set fs. map_prod id JSON_stringify kv = kv"
    by (fastforce simp add: list_all_iff)
  then show ?case by (simp add: map_idI)
qed simp_all

text \<open>A status relayed from a backend error is accepted when it is in 300..599 and not 304.\<close>

lemma NextResponse_json_relayed:
  "\<not> ok r \<Longrightarrow> 200 \<le> status r \<Longrightarrow> status r \<le> 599 \<Longrightarrow> status r \<noteq> 304 \<Longrightarrow>
   NextResponse_json data (status r) = Inr (json_response (JSON_stringify data) (status r))"
  by (auto simp add: NextResponse_json_def null_body_status_def ok_def)

lemma calls_try_catch: "calls (try_catch label msg cs block) = cs"
  by (simp add: try_catch_def split: sum.split)

lemma try_catch_returns: "\<exists>resp. result (try_catch label msg cs block) = Inr resp"
  by (simp add: try_catch_def NextResponse_json_fixed split: sum.split)

text \<open>The guarded block shared by the handlers, when the call or the decoding fails.\<close>

lemma block_rejected:
  "fetch e req = Rejected \<Longrightarrow>
   try_catch label msg [req] (bind_exn (await_fetch e req) f) =
     \<lparr>result = Inr (json_response (JObj [(''error'', JStr msg)]) 500),
      calls = [req], logs = [(label, FetchFailed)]\<rparr>"
  by (simp add: try_catch_def bind_exn_def await_fetch_def NextResponse_json_fixed error_body_def)

lemma block_undecodable:
  "fetch e req = Resolved r \<Longrightarrow> json_parse e (body r) = None \<Longrightarrow>
   try_catch label msg [req]
     (bind_exn (await_fetch e req) (\<lambda>response. bind_exn (response_json e response) g)) =
     \<lparr>result = Inr (json_response (JObj [(''error'', JStr msg)]) 500),
      calls = [req], logs = [(label, SyntaxError)]\<rparr>"
  by (simp add: try_catch_def bind_exn_def await_fetch_def response_json_def
      NextResponse_json_fixed error_body_def)

lemma headers_get_fixed:
  "headers_get h ''content-type'' = map_of h ''content-type''"
  "headers_get h ''content-length'' = map_of h ''content-length''"
  by (simp_all add: headers_get_def ascii_lower_def)

lemma headers_set_fixed:
  "headers_set h ''Content-Type'' v = headers_put h ''content-type'' v"
  "headers_set h ''Content-Length'' v = headers_put h ''content-length'' v"
  "headers_set h ''Accept-Ranges'' v = headers_put h ''accept-ranges'' v"
  by (simp_all add: headers_set_def ascii_lower_def)

subsection \<open>The handlers past their parameter check\<close>

lemma search_call:
  assumes "searchParams_get ps ''q'' = Some q" and "q \<noteq> []"
  shows "search_GET e ps =
           try_catch ''Search API error:'' ''Failed to search videos''
             [\<lparr>req_method = HTTP_GET,
               url = BACKEND_URL @ ''/api/search?q='' @ encodeURIComponent q
                     @ ''&max_results=''
                     @ or_string (searchParams_get ps ''max_results'') ''20''\<rparr>]
             (bind_exn
                (await_fetch e
                   \<lparr>req_method = HTTP_GET,
                    url = BACKEND_URL @ ''/api/search?q='' @ encodeURIComponent q
                          @ ''&max_results=''
                          @ or_string (searchParams_get ps ''max_results'') ''20''\<rparr>)
                (\<lambda>response.
                  bind_exn (response_json e response) (\<lambda>data.
                  NextResponse_json data 200)))"
  using assms by (simp add: search_GET_def Let_def)

lemma video_info_call:
  assumes "searchParams_get ps ''url'' = Some u" and "u \<noteq> []"
  shows "video_info_GET e ps =
           try_catch ''Video info API error:'' ''Failed to get video information''
             [\<lparr>req_method = HTTP_GET,
               url = BACKEND_URL @ ''/api/video/info?url='' @ encodeURIComponent u\<rparr>]
             (bind_exn
                (await_fetch e
                   \<lparr>req_method = HTTP_GET,
                    url = BACKEND_URL @ ''/api/video/info?url='' @ encodeURIComponent u\<rparr>)
                (\<lambda>response.
                  if \<not> ok response then
                    (let errorData =
                           (case response_json e response of
                              Inl _ \<Rightarrow> JObj [(''detail'', JStr ''Unknown error'')]
                            | Inr j \<Rightarrow> j)
                     in bind_exn (get_detail errorData) (\<lambda>detail.
                        NextResponse_json
                          (error_body (or_json detail (JStr ''Failed to get video info'')))
                          (status response)))
                  else
                    bind_exn (response_json e response) (\<lambda>data.
                    NextResponse_json data 200)))"
  using assms by (simp add: video_info_GET_def Let_def)

lemma video_info_url:
  "searchParams_get ps ''url'' = Some u \<Longrightarrow> u \<noteq> [] \<Longrightarrow>
   calls (video_info_GET e ps) =
     [\<lparr>req_method = HTTP_GET, url = BACKEND_URL @ ''/api/video/info?url='' @ encodeURIComponent u\<rparr>]"
  by (simp add: video_info_GET_def try_catch_def Let_def split: sum.split)

lemma video_info_not_ok:
  assumes "searchParams_get ps ''url'' = Some u" and "u \<noteq> []"
    and "fetch e \<lparr>req_method = HTTP_GET,
                  url = BACKEND_URL @ ''/api/video/info?url='' @ encodeURIComponent u\<rparr>
         = Resolved r"
    and "\<not> ok r"
  shows "video_info_GET e ps =
           try_catch ''Video info API error:'' ''Failed to get video information''
             [\<lparr>req_method = HTTP_GET,
               url = BACKEND_URL @ ''/api/video/info?url='' @ encodeURIComponent u\<rparr>]
             (bind_exn
                (get_detail (case json_parse e (body r) of
                               None \<Rightarrow> JObj [(''detail'', JStr ''Unknown error'')]
                             | Some j \<Rightarrow> j))
                (\<lambda>detail. NextResponse_json
                             (error_body (or_json detail (JStr ''Failed to get video info'')))
                             (status r)))"
  using assms
  by (simp add: video_info_GET_def await_fetch_def response_json_def bind_exn_def Let_def
      split: option.split)

subsection \<open>Required parameters\<close>

text \<open>
  Claim C1. The information handler without its \<open>url\<close> parameter, and the search
  handler without its \<open>q\<close> parameter, return status 400 with a JSON body naming the
  missing parameter, and make no outbound call (and log nothing), whatever the backend
  would answer.
\<close>

theorem missing_required_parameter:
  \<open>(searchParams_get ps ''url'' = None \<longrightarrow>
      video_info_GET e ps =
        \<lparr>result = Inr (json_response (JObj [(''error'', JStr ''URL parameter is required'')]) 400),
         calls = [], logs = []\<rparr>)
   \<and> (searchParams_get ps ''q'' = None \<longrightarrow>
      search_GET e ps =
        \<lparr>result = Inr (json_response
                          (JObj [(''error'', JStr ''Query parameter "q" is required'')]) 400),
         calls = [], logs = []\<rparr>)\<close>
  by (simp add: video_info_GET_def search_GET_def NextResponse_json_fixed error_body_def)

text \<open>Both handlers on a request that carries neither parameter.\<close>

theorem missing_required_parameter_witness:
  \<open>searchParams_get [(''max_results'', ''5'')] ''url'' = None
   \<and> searchParams_get [(''max_results'', ''5'')] ''q'' = None
   \<and> video_info_GET (fixed_env Rejected []) [(''max_results'', ''5'')] =
        \<lparr>result = Inr (json_response (JObj [(''error'', JStr ''URL parameter is required'')]) 400),
         calls = [], logs = []\<rparr>
   \<and> search_GET (fixed_env Rejected []) [(''max_results'', ''5'')] =
        \<lparr>result = Inr (json_response
                          (JObj [(''error'', JStr ''Query parameter "q" is required'')]) 400),
         calls = [], logs = []\<rparr>\<close>
  using missing_required_parameter [of "[(''max_results'', ''5'')]" "fixed_env Rejected []"]
  by (simp add: searchParams_get_def)

subsection \<open>The information handler on a backend error\<close>

text \<open>
  Claim C2, as the code has it. Let the backend answer the information handler's call with
  a status outside 200..299 that the platform accepts for a response with a body (within
  200..599 and not 304). If the body decodes to a JSON object whose \<open>detail\<close> is a
  non-empty string \<open>d\<close>, the handler returns the backend's status with the body
  \<open>{"error": d}\<close>. If the body does not decode, it returns the backend's status with
  the body \<open>{"error": "Unknown error"}\<close>.
\<close>

theorem video_info_backend_error:
  assumes "searchParams_get ps ''url'' = Some u" and "u \<noteq> []"
    and "fetch e \<lparr>req_method = HTTP_GET,
                  url = BACKEND_URL @ ''/api/video/info?url='' @ encodeURIComponent u\<rparr>
         = Resolved r"
    and "\<not> ok r" and "200 \<le> status r" and "status r \<le> 599" and "status r \<noteq> 304"
  shows "(json_parse e (body r) = Some (JObj fs) \<and> map_of fs ''detail'' = Some (JStr d) \<and> d \<noteq> []
            \<longrightarrow> result (video_info_GET e ps)
                = Inr (json_response (JObj [(''error'', JStr d)]) (status r)))
       \<and> (json_parse e (body r) = None
            \<longrightarrow> result (video_info_GET e ps)
                = Inr (json_response (JObj [(''error'', JStr ''Unknown error'')]) (status r)))"
  by (simp add: video_info_not_ok [OF assms(1-4)] NextResponse_json_relayed [OF assms(4-7)]
      try_catch_def bind_exn_def error_body_def)

text \<open>
  The two cases the specification names: status 422 with \<open>{"detail":"invalid url"}\<close>,
  and status 500 with a body that is not JSON.
\<close>

theorem video_info_backend_error_witness:
  \<open>result (video_info_GET
      (fixed_env (Resolved \<lparr>status = 422, headers = [], body = ''{"detail":"invalid url"}''\<rparr>)
         [(''{"detail":"invalid url"}'', JObj [(''detail'', JStr ''invalid url'')])])
      [(''url'', ''notaurl'')])
     = Inr (json_response (JObj [(''error'', JStr ''invalid url'')]) 422)
   \<and> result (video_info_GET
      (fixed_env (Resolved \<lparr>status = 500, headers = [], body = ''Bad Gateway''\<rparr>)
         [(''{"detail":"invalid url"}'', JObj [(''detail'', JStr ''invalid url'')])])
      [(''url'', ''notaurl'')])
     = Inr (json_response (JObj [(''error'', JStr ''Unknown error'')]) 500)\<close>
proof -
  let ?t = \<open>[(''{"detail":"invalid url"}'', JObj [(''detail'', JStr ''invalid url'')])]\<close>
  let ?r1 = \<open>\<lparr>status = 422, headers = [], body = ''{"detail":"invalid url"}''\<rparr>\<close>
  let ?r2 = \<open>\<lparr>status = 500, headers = [], body = ''Bad Gateway''\<rparr>\<close>
  let ?ps = "[(''url'', ''notaurl'')]"
  have p: "searchParams_get ?ps ''url'' = Some ''notaurl''" "''notaurl'' \<noteq> []"
    by (simp_all add: searchParams_get_def)
  have f1: "fetch (fixed_env (Resolved ?r1) ?t) \<lparr>req_method = HTTP_GET,
                  url = BACKEND_URL @ ''/api/video/info?url='' @ encodeURIComponent ''notaurl''\<rparr>
         = Resolved ?r1"
    by (simp add: fixed_env_def)
  have f2: "fetch (fixed_env (Resolved ?r2) ?t) \<lparr>req_method = HTTP_GET,
                  url = BACKEND_URL @ ''/api/video/info?url='' @ encodeURIComponent ''notaurl''\<rparr>
         = Resolved ?r2"
    by (simp add: fixed_env_def)
  have s1: "\<not> ok ?r1" "200 \<le> status ?r1" "status ?r1 \<le> 599" "status ?r1 \<noteq> 304"
    by (simp_all add: ok_def)
  have s2: "\<not> ok ?r2" "200 \<le> status ?r2" "status ?r2 \<le> 599" "status ?r2 \<noteq> 304"
    by (simp_all add: ok_def)
  have d1: "json_parse (fixed_env (Resolved ?r1) ?t) (body ?r1)
              = Some (JObj [(''detail'', JStr ''invalid url'')])
            \<and> map_of [(''detail'', JStr ''invalid url'')] ''detail'' = Some (JStr ''invalid url'')
            \<and> ''invalid url'' \<noteq> []"
    by (simp add: fixed_env_def)
  have d2: "json_parse (fixed_env (Resolved ?r2) ?t) (body ?r2) = None"
    by (simp add: fixed_env_def)
  from video_info_backend_error [OF p f1 s1, of "[(''detail'', JStr ''invalid url'')]" "''invalid url''"]
       video_info_backend_error [OF p f2 s2]
       d1 d2
  show ?thesis by simp
qed

text \<open>
  Claim C2 as stated fails in three places. With \<open>detail\<close> the empty string, \<open>||\<close> takes
  its right operand, so the body is \<open>{"error": "Failed to get video info"}\<close> and not
  \<open>{"error": ""}\<close>. With the backend status 304, or 999, and a body that is not JSON,
  the platform refuses to build a response with that status and a body; the exception
  reaches the handler's own \<open>catch\<close>, and the response is status 500 with the handler's
  generic message, not the backend's status with \<open>"Unknown error"\<close>.
\<close>

theorem video_info_backend_error_counterexample:
  \<open>result (video_info_GET
      (fixed_env (Resolved \<lparr>status = 422, headers = [], body = ''{"detail":""}''\<rparr>)
         [(''{"detail":""}'', JObj [(''detail'', JStr [])])])
      [(''url'', ''notaurl'')])
     = Inr (json_response (JObj [(''error'', JStr ''Failed to get video info'')]) 422)
   \<and> result (video_info_GET
      (fixed_env (Resolved \<lparr>status = 422, headers = [], body = ''{"detail":""}''\<rparr>)
         [(''{"detail":""}'', JObj [(''detail'', JStr [])])])
      [(''url'', ''notaurl'')])
     \<noteq> Inr (json_response (JObj [(''error'', JStr [])]) 422)
   \<and> result (video_info_GET
      (fixed_env (Resolved \<lparr>status = 304, headers = [], body = []\<rparr>) [])
      [(''url'', ''notaurl'')])
     = Inr (json_response (JObj [(''error'', JStr ''Failed to get video information'')]) 500)
   \<and> result (video_info_GET
      (fixed_env (Resolved \<lparr>status = 999, headers = [], body = ''denied''\<rparr>) [])
      [(''url'', ''notaurl'')])
     = Inr (json_response (JObj [(''error'', JStr ''Failed to get video information'')]) 500)\<close>
  by (simp add: video_info_GET_def fixed_env_def ok_def error_body_def platform_defs
      json_response_def)

subsection \<open>The streaming handler on a backend error\<close>

text \<open>
  Claim C3. When the backend answers the streaming handler's call with any status outside
  200..299, the handler returns status 404 with the body \<open>{"error": "Video not found"}\<close>:
  the backend's own status does not appear in the response.
\<close>

theorem stream_backend_error:
  assumes "fetch e \<lparr>req_method = HTTP_GET,
                     url = BACKEND_URL @ ''/api/stream/'' @ encodeURIComponent filename\<rparr>
           = Resolved r"
    and "\<not> ok r"
  shows "stream_GET e filename =
           \<lparr>result = Inr (json_response (JObj [(''error'', JStr ''Video not found'')]) 404),
            calls = [\<lparr>req_method = HTTP_GET,
                      url = BACKEND_URL @ ''/api/stream/'' @ encodeURIComponent filename\<rparr>],
            logs = []\<rparr>"
  using assms
  by (simp add: stream_GET_def try_catch_def bind_exn_def await_fetch_def
      NextResponse_json_fixed error_body_def)

text \<open>A backend status of 500 becomes 404.\<close>

theorem stream_backend_error_witness:
  "fetch (fixed_env (Resolved \<lparr>status = 500, headers = [], body = ''gone''\<rparr>) [])
         \<lparr>req_method = HTTP_GET,
          url = BACKEND_URL @ ''/api/stream/'' @ encodeURIComponent ''clip.mp4''\<rparr>
     = Resolved \<lparr>status = 500, headers = [], body = ''gone''\<rparr>
   \<and> \<not> ok \<lparr>status = 500, headers = [], body = ''gone''\<rparr>
   \<and> stream_GET (fixed_env (Resolved \<lparr>status = 500, headers = [], body = ''gone''\<rparr>) [])
         ''clip.mp4'' =
           \<lparr>result = Inr (json_response (JObj [(''error'', JStr ''Video not found'')]) 404),
            calls = [\<lparr>req_method = HTTP_GET, url = ''http://localhost:8001/api/stream/clip.mp4''\<rparr>],
            logs = []\<rparr>"
proof -
  let ?r = "\<lparr>status = 500, headers = [], body = ''gone''\<rparr>"
  let ?e = "fixed_env (Resolved ?r) []"
  have f: "fetch ?e \<lparr>req_method = HTTP_GET,
             url = BACKEND_URL @ ''/api/stream/'' @ encodeURIComponent ''clip.mp4''\<rparr> = Resolved ?r"
    by (simp add: fixed_env_def)
  have n: "\<not> ok ?r" by (simp add: ok_def)
  have u: "BACKEND_URL @ ''/api/stream/'' @ encodeURIComponent ''clip.mp4''
           = ''http://localhost:8001/api/stream/clip.mp4''"
    by (simp add: BACKEND_URL_def encodeURIComponent_def uri_unreserved_def)
  from stream_backend_error [OF f n] f n u show ?thesis by simp
qed

subsection \<open>Backend errors on the other handlers\<close>

text \<open>
  Claim C4 says that no backend answer with a status outside 200..299 reaches the caller
  as a success. The search, library, trending and deletion handlers never read
  \<open>response.ok\<close>: on a backend status of 500 whose body is JSON, each of them returns
  that body with status 200, and logs nothing.
\<close>

theorem backend_error_relayed_as_success:
  \<open>\<not> ok \<lparr>status = 500, headers = [], body = ''{"detail":"Internal Server Error"}''\<rparr>
   \<and> search_GET
       (fixed_env
          (Resolved \<lparr>status = 500, headers = [], body = ''{"detail":"Internal Server Error"}''\<rparr>)
          [(''{"detail":"Internal Server Error"}'',
            JObj [(''detail'', JStr ''Internal Server Error'')])])
       [(''q'', ''test'')]
     = \<lparr>result = Inr (json_response (JObj [(''detail'', JStr ''Internal Server Error'')]) 200),
        calls = [\<lparr>req_method = HTTP_GET,
                  url = ''http://localhost:8001/api/search?q=test&max_results=20''\<rparr>],
        logs = []\<rparr>
   \<and> library_GET
       (fixed_env
          (Resolved \<lparr>status = 500, headers = [], body = ''{"detail":"Internal Server Error"}''\<rparr>)
          [(''{"detail":"Internal Server Error"}'',
            JObj [(''detail'', JStr ''Internal Server Error'')])])
     = \<lparr>result = Inr (json_response (JObj [(''detail'', JStr ''Internal Server Error'')]) 200),
        calls = [\<lparr>req_method = HTTP_GET, url = ''http://localhost:8001/api/library''\<rparr>],
        logs = []\<rparr>
   \<and> trending_GET
       (fixed_env
          (Resolved \<lparr>status = 500, headers = [], body = ''{"detail":"Internal Server Error"}''\<rparr>)
          [(''{"detail":"Internal Server Error"}'',
            JObj [(''detail'', JStr ''Internal Server Error'')])])
     = \<lparr>result = Inr (json_response (JObj [(''detail'', JStr ''Internal Server Error'')]) 200),
        calls = [\<lparr>req_method = HTTP_GET, url = ''http://localhost:8001/api/trending''\<rparr>],
        logs = []\<rparr>
   \<and> library_DELETE
       (fixed_env
          (Resolved \<lparr>status = 500, headers = [], body = ''{"detail":"Internal Server Error"}''\<rparr>)
          [(''{"detail":"Internal Server Error"}'',
            JObj [(''detail'', JStr ''Internal Server Error'')])])
       ''clip.mp4''
     = \<lparr>result = Inr (json_response (JObj [(''detail'', JStr ''Internal Server Error'')]) 200),
        calls = [\<lparr>req_method = HTTP_DELETE, url = ''http://localhost:8001/api/library/clip.mp4''\<rparr>],
        logs = []\<rparr>\<close>
  by (simp add: search_GET_def library_GET_def trending_GET_def library_DELETE_def
      fixed_env_def ok_def platform_defs BACKEND_URL_def encodeURIComponent_def
      uri_unreserved_def)

subsection \<open>The outbound URL\<close>

text \<open>
  Claim C5 says that every parameter value is percent-encoded in the outbound URL, the
  search handler's \<open>max_results\<close> included. The search handler encodes \<open>q\<close> and
  writes \<open>max_results\<close> as it came: the value \<open>5&q=other\<close> reaches the backend as a
  second \<open>q\<close> parameter. The second equation is the URL that encoding it would give.
\<close>

theorem search_max_results_not_encoded:
  "calls (search_GET e [(''q'', ''test''), (''max_results'', ''5&q=other'')]) =
     [\<lparr>req_method = HTTP_GET,
       url = ''http://localhost:8001/api/search?q=test&max_results=5&q=other''\<rparr>]
   \<and> BACKEND_URL @ ''/api/search?q='' @ encodeURIComponent ''test''
       @ ''&max_results='' @ encodeURIComponent ''5&q=other''
     = ''http://localhost:8001/api/search?q=test&max_results=5%26q%3Dother''"
  by (simp add: search_GET_def Let_def searchParams_get_def calls_try_catch BACKEND_URL_def
      encodeURIComponent_def uri_unreserved_def percent_encode_def hex_digit_def)

subsection \<open>The streaming handler on success\<close>

text \<open>
  Claim C6, as the code has it. When the backend answers the streaming handler's call with
  a status in 200..299, the handler returns status 200 with exactly these headers:
  \<open>Content-Type\<close>, the backend's \<open>content-type\<close> when that header is present and not
  empty, and \<open>video/mp4\<close> otherwise; \<open>Content-Length\<close>, the backend's
  \<open>content-length\<close>, only when that header is present and not empty;
  \<open>Accept-Ranges: bytes\<close>. The body is the backend's body, byte for byte. One call is
  made and nothing is logged.
\<close>

theorem stream_success:
  assumes "fetch e \<lparr>req_method = HTTP_GET,
                     url = BACKEND_URL @ ''/api/stream/'' @ encodeURIComponent filename\<rparr>
           = Resolved r"
    and "ok r"
  shows "stream_GET e filename =
           \<lparr>result = Inr
              \<lparr>out_status = 200,
               out_headers =
                 [(''content-type'',
                   (case headers_get (headers r) ''content-type'' of
                      None \<Rightarrow> ''video/mp4''
                    | Some ct \<Rightarrow> if ct = [] then ''video/mp4'' else ct))]
                 @ (case headers_get (headers r) ''content-length'' of
                      None \<Rightarrow> []
                    | Some cl \<Rightarrow> if cl = [] then [] else [(''content-length'', cl)])
                 @ [(''accept-ranges'', ''bytes'')],
               out_body = StreamBody (body r)\<rparr>,
            calls = [\<lparr>req_method = HTTP_GET,
                      url = BACKEND_URL @ ''/api/stream/'' @ encodeURIComponent filename\<rparr>],
            logs = []\<rparr>"
  using assms
  by (simp add: stream_GET_def try_catch_def bind_exn_def await_fetch_def Let_def
      headers_get_fixed headers_set_fixed split: option.split)

text \<open>
  The case the specification names (\<open>video/webm\<close>, length 1024), and a backend that
  sends neither header.
\<close>

theorem stream_success_witness:
  "stream_GET
     (fixed_env (Resolved \<lparr>status = 200,
                           headers = [(''content-type'', ''video/webm''),
                                      (''content-length'', ''1024'')],
                           body = ''bytes''\<rparr>) [])
     ''clip.webm'' =
       \<lparr>result = Inr
          \<lparr>out_status = 200,
           out_headers = [(''content-type'', ''video/webm''), (''content-length'', ''1024''),
                          (''accept-ranges'', ''bytes'')],
           out_body = StreamBody ''bytes''\<rparr>,
        calls = [\<lparr>req_method = HTTP_GET, url = ''http://localhost:8001/api/stream/clip.webm''\<rparr>],
        logs = []\<rparr>
   \<and> stream_GET (fixed_env (Resolved \<lparr>status = 206, headers = [], body = ''bytes''\<rparr>) [])
     ''clip.webm'' =
       \<lparr>result = Inr
          \<lparr>out_status = 200,
           out_headers = [(''content-type'', ''video/mp4''), (''accept-ranges'', ''bytes'')],
           out_body = StreamBody ''bytes''\<rparr>,
        calls = [\<lparr>req_method = HTTP_GET, url = ''http://localhost:8001/api/stream/clip.webm''\<rparr>],
        logs = []\<rparr>"
proof -
  let ?r1 = "\<lparr>status = 200,
              headers = [(''content-type'', ''video/webm''), (''content-length'', ''1024'')],
              body = ''bytes''\<rparr>"
  let ?r2 = "\<lparr>status = 206, headers = [], body = ''bytes''\<rparr>"
  let ?req = "\<lparr>req_method = HTTP_GET,
               url = BACKEND_URL @ ''/api/stream/'' @ encodeURIComponent ''clip.webm''\<rparr>"
  have f1: "fetch (fixed_env (Resolved ?r1) []) ?req = Resolved ?r1"
    and f2: "fetch (fixed_env (Resolved ?r2) []) ?req = Resolved ?r2"
    by (simp_all add: fixed_env_def)
  have k1: "ok ?r1" and k2: "ok ?r2"
    by (simp_all add: ok_def)
  have u: "BACKEND_URL @ ''/api/stream/'' @ encodeURIComponent ''clip.webm''
           = ''http://localhost:8001/api/stream/clip.webm''"
    by (simp add: BACKEND_URL_def encodeURIComponent_def uri_unreserved_def)
  from stream_success [OF f1 k1] stream_success [OF f2 k2] u
  show ?thesis by (simp add: headers_get_fixed)
qed

text \<open>
  Claim C6 as stated fails for a header that is present and empty: \<open>||\<close> and
  \<open>if (contentLength)\<close> treat the empty string as they treat \<open>null\<close>. The outbound
  \<open>Content-Type\<close> is \<open>video/mp4\<close>, not the backend's empty value, and there is no
  \<open>Content-Length\<close> although the backend sent the header.
\<close>

theorem stream_success_counterexample:
  "headers_get
     (headers \<lparr>status = 200,
               headers = [(''content-type'', []), (''content-length'', [])],
               body = ''bytes''\<rparr>) ''content-type'' = Some []
   \<and> headers_get
     (headers \<lparr>status = 200,
               headers = [(''content-type'', []), (''content-length'', [])],
               body = ''bytes''\<rparr>) ''content-length'' = Some []
   \<and> result (stream_GET
       (fixed_env (Resolved \<lparr>status = 200,
                             headers = [(''content-type'', []), (''content-length'', [])],
                             body = ''bytes''\<rparr>) [])
       ''clip.webm'') =
       Inr \<lparr>out_status = 200,
            out_headers = [(''content-type'', ''video/mp4''), (''accept-ranges'', ''bytes'')],
            out_body = StreamBody ''bytes''\<rparr>"
  by (simp add: stream_GET_def fixed_env_def ok_def platform_defs
      headers_get_fixed headers_set_fixed)

subsection \<open>Failures of the outbound call and of decoding\<close>

lemma rejected_library:
  "fetch e \<lparr>req_method = HTTP_GET, url = BACKEND_URL @ ''/api/library''\<rparr> = Rejected \<Longrightarrow>
   library_GET e =
     \<lparr>result = Inr (json_response (JObj [(''error'', JStr ''Failed to get library'')]) 500),
      calls = [\<lparr>req_method = HTTP_GET, url = BACKEND_URL @ ''/api/library''\<rparr>],
      logs = [(''Library API error:'', FetchFailed)]\<rparr>"
  unfolding library_GET_def Let_def by (rule block_rejected)

lemma rejected_trending:
  "fetch e \<lparr>req_method = HTTP_GET, url = BACKEND_URL @ ''/api/trending''\<rparr> = Rejected \<Longrightarrow>
   trending_GET e =
     \<lparr>result = Inr (json_response (JObj [(''error'', JStr ''Failed to get trending videos'')]) 500),
      calls = [\<lparr>req_method = HTTP_GET, url = BACKEND_URL @ ''/api/trending''\<rparr>],
      logs = [(''Trending API error:'', FetchFailed)]\<rparr>"
  unfolding trending_GET_def Let_def by (rule block_rejected)

lemma rejected_search:
  assumes "searchParams_get ps ''q'' = Some q" and "q \<noteq> []"
    and "fetch e \<lparr>req_method = HTTP_GET,
                  url = BACKEND_URL @ ''/api/search?q='' @ encodeURIComponent q
                        @ ''&max_results=''
                        @ or_string (searchParams_get ps ''max_results'') ''20''\<rparr> = Rejected"
  shows "search_GET e ps =
     \<lparr>result = Inr (json_response (JObj [(''error'', JStr ''Failed to search videos'')]) 500),
      calls = [\<lparr>req_method = HTTP_GET,
                url = BACKEND_URL @ ''/api/search?q='' @ encodeURIComponent q
                      @ ''&max_results=''
                      @ or_string (searchParams_get ps ''max_results'') ''20''\<rparr>],
      logs = [(''Search API error:'', FetchFailed)]\<rparr>"
  unfolding search_call [OF assms(1,2)] using assms(3) by (rule block_rejected)

lemma rejected_video_info:
  assumes "searchParams_get ps ''url'' = Some u" and "u \<noteq> []"
    and "fetch e \<lparr>req_method = HTTP_GET,
                  url = BACKEND_URL @ ''/api/video/info?url='' @ encodeURIComponent u\<rparr>
         = Rejected"
  shows "video_info_GET e ps =
     \<lparr>result = Inr (json_response
                      (JObj [(''error'', JStr ''Failed to get video information'')]) 500),
      calls = [\<lparr>req_method = HTTP_GET,
                url = BACKEND_URL @ ''/api/video/info?url='' @ encodeURIComponent u\<rparr>],
      logs = [(''Video info API error:'', FetchFailed)]\<rparr>"
  unfolding video_info_call [OF assms(1,2)] using assms(3) by (rule block_rejected)

lemma rejected_stream:
  "fetch e \<lparr>req_method = HTTP_GET,
            url = BACKEND_URL @ ''/api/stream/'' @ encodeURIComponent filename\<rparr> = Rejected \<Longrightarrow>
   stream_GET e filename =
     \<lparr>result = Inr (json_response (JObj [(''error'', JStr ''Failed to stream video'')]) 500),
      calls = [\<lparr>req_method = HTTP_GET,
                url = BACKEND_URL @ ''/api/stream/'' @ encodeURIComponent filename\<rparr>],
      logs = [(''Stream API error:'', FetchFailed)]\<rparr>"
  unfolding stream_GET_def Let_def by (rule block_rejected)

lemma rejected_delete:
  "fetch e \<lparr>req_method = HTTP_DELETE,
            url = BACKEND_URL @ ''/api/library/'' @ encodeURIComponent filename\<rparr> = Rejected \<Longrightarrow>
   library_DELETE e filename =
     \<lparr>result = Inr (json_response (JObj [(''error'', JStr ''Failed to delete video'')]) 500),
      calls = [\<lparr>req_method = HTTP_DELETE,
                url = BACKEND_URL @ ''/api/library/'' @ encodeURIComponent filename\<rparr>],
      logs = [(''Delete video API error:'', FetchFailed)]\<rparr>"
  unfolding library_DELETE_def Let_def by (rule block_rejected)

lemma undecodable_library:
  "fetch e \<lparr>req_method = HTTP_GET, url = BACKEND_URL @ ''/api/library''\<rparr> = Resolved r \<Longrightarrow>
   json_parse e (body r) = None \<Longrightarrow>
   library_GET e =
     \<lparr>result = Inr (json_response (JObj [(''error'', JStr ''Failed to get library'')]) 500),
      calls = [\<lparr>req_method = HTTP_GET, url = BACKEND_URL @ ''/api/library''\<rparr>],
      logs = [(''Library API error:'', SyntaxError)]\<rparr>"
  unfolding library_GET_def Let_def by (rule block_undecodable)

lemma undecodable_trending:
  "fetch e \<lparr>req_method = HTTP_GET, url = BACKEND_URL @ ''/api/trending''\<rparr> = Resolved r \<Longrightarrow>
   json_parse e (body r) = None \<Longrightarrow>
   trending_GET e =
     \<lparr>result = Inr (json_response (JObj [(''error'', JStr ''Failed to get trending videos'')]) 500),
      calls = [\<lparr>req_method = HTTP_GET, url = BACKEND_URL @ ''/api/trending''\<rparr>],
      logs = [(''Trending API error:'', SyntaxError)]\<rparr>"
  unfolding trending_GET_def Let_def by (rule block_undecodable)

lemma undecodable_search:
  assumes "searchParams_get ps ''q'' = Some q" and "q \<noteq> []"
    and "fetch e \<lparr>req_method = HTTP_GET,
                  url = BACKEND_URL @ ''/api/search?q='' @ encodeURIComponent q
                        @ ''&max_results=''
                        @ or_string (searchParams_get ps ''max_results'') ''20''\<rparr> = Resolved r"
    and "json_parse e (body r) = None"
  shows "search_GET e ps =
     \<lparr>result = Inr (json_response (JObj [(''error'', JStr ''Failed to search videos'')]) 500),
      calls = [\<lparr>req_method = HTTP_GET,
                url = BACKEND_URL @ ''/api/search?q='' @ encodeURIComponent q
                      @ ''&max_results=''
                      @ or_string (searchParams_get ps ''max_results'') ''20''\<rparr>],
      logs = [(''Search API error:'', SyntaxError)]\<rparr>"
  unfolding search_call [OF assms(1,2)] using assms(3,4) by (rule block_undecodable)

lemma undecodable_video_info:
  assumes "searchParams_get ps ''url'' = Some u" and "u \<noteq> []"
    and "fetch e \<lparr>req_method = HTTP_GET,
                  url = BACKEND_URL @ ''/api/video/info?url='' @ encodeURIComponent u\<rparr>
         = Resolved r"
    and "ok r" and "json_parse e (body r) = None"
  shows "video_info_GET e ps =
     \<lparr>result = Inr (json_response
                      (JObj [(''error'', JStr ''Failed to get video information'')]) 500),
      calls = [\<lparr>req_method = HTTP_GET,
                url = BACKEND_URL @ ''/api/video/info?url='' @ encodeURIComponent u\<rparr>],
      logs = [(''Video info API error:'', SyntaxError)]\<rparr>"
  unfolding video_info_call [OF assms(1,2)] using assms(3-5)
  by (simp add: try_catch_def bind_exn_def await_fetch_def response_json_def
      NextResponse_json_fixed error_body_def)

lemma undecodable_delete:
  "fetch e \<lparr>req_method = HTTP_DELETE,
            url = BACKEND_URL @ ''/api/library/'' @ encodeURIComponent filename\<rparr> = Resolved r \<Longrightarrow>
   json_parse e (body r) = None \<Longrightarrow>
   library_DELETE e filename =
     \<lparr>result = Inr (json_response (JObj [(''error'', JStr ''Failed to delete video'')]) 500),
      calls = [\<lparr>req_method = HTTP_DELETE,
                url = BACKEND_URL @ ''/api/library/'' @ encodeURIComponent filename\<rparr>],
      logs = [(''Delete video API error:'', SyntaxError)]\<rparr>"
  unfolding library_DELETE_def Let_def by (rule block_undecodable)

lemma absorbed_video_info:
  assumes "searchParams_get ps ''url'' = Some u" and "u \<noteq> []"
    and "fetch e \<lparr>req_method = HTTP_GET,
                  url = BACKEND_URL @ ''/api/video/info?url='' @ encodeURIComponent u\<rparr>
         = Resolved r"
    and "\<not> ok r" and "200 \<le> status r" and "status r \<le> 599" and "status r \<noteq> 304"
    and "json_parse e (body r) = None"
  shows "video_info_GET e ps =
     \<lparr>result = Inr (json_response (JObj [(''error'', JStr ''Unknown error'')]) (status r)),
      calls = [\<lparr>req_method = HTTP_GET,
                url = BACKEND_URL @ ''/api/video/info?url='' @ encodeURIComponent u\<rparr>],
      logs = []\<rparr>"
  using assms(8)
  by (simp add: video_info_not_ok [OF assms(1-4)] NextResponse_json_relayed [OF assms(4-7)]
      try_catch_def bind_exn_def error_body_def)

lemma handlers_return:
  "\<exists>resp. result (library_GET e) = Inr resp"
  "\<exists>resp. result (trending_GET e) = Inr resp"
  "\<exists>resp. result (search_GET e ps) = Inr resp"
  "\<exists>resp. result (video_info_GET e ps) = Inr resp"
  "\<exists>resp. result (stream_GET e filename) = Inr resp"
  "\<exists>resp. result (library_DELETE e filename) = Inr resp"
  by (simp_all add: library_GET_def trending_GET_def search_GET_def video_info_GET_def
      stream_GET_def library_DELETE_def Let_def try_catch_returns NextResponse_json_fixed)

text \<open>
  Claim C7, as the code has it. For each of the six handlers, when \<open>fetch\<close> rejects, the
  handler logs the exception under its own label and returns status 500 with
  \<open>{"error": m}\<close>, \<open>m\<close> its own fixed message. The same holds when the body does not
  decode as JSON, for the library, trending, search and deletion handlers on any backend
  status, and for the information handler on a backend status in 200..299 (the streaming
  handler decodes no body). On the information handler with a backend status outside
  200..299, within 200..599 and not 304, a body that does not decode is absorbed instead:
  the response has the backend's status and \<open>{"error": "Unknown error"}\<close>, and nothing
  is logged. No handler lets an exception out: every outcome is a response.
\<close>

theorem failures_become_500:
  "(fetch e \<lparr>req_method = HTTP_GET, url = BACKEND_URL @ ''/api/library''\<rparr> = Rejected \<longrightarrow>
      library_GET e =
        \<lparr>result = Inr (json_response (JObj [(''error'', JStr ''Failed to get library'')]) 500),
         calls = [\<lparr>req_method = HTTP_GET, url = BACKEND_URL @ ''/api/library''\<rparr>],
         logs = [(''Library API error:'', FetchFailed)]\<rparr>)
   \<and> (fetch e \<lparr>req_method = HTTP_GET, url = BACKEND_URL @ ''/api/library''\<rparr> = Resolved r
        \<and> json_parse e (body r) = None \<longrightarrow>
      library_GET e =
        \<lparr>result = Inr (json_response (JObj [(''error'', JStr ''Failed to get library'')]) 500),
         calls = [\<lparr>req_method = HTTP_GET, url = BACKEND_URL @ ''/api/library''\<rparr>],
         logs = [(''Library API error:'', SyntaxError)]\<rparr>)
   \<and> (fetch e \<lparr>req_method = HTTP_GET, url = BACKEND_URL @ ''/api/trending''\<rparr> = Rejected \<longrightarrow>
      trending_GET e =
        \<lparr>result = Inr (json_response
                         (JObj [(''error'', JStr ''Failed to get trending videos'')]) 500),
         calls = [\<lparr>req_method = HTTP_GET, url = BACKEND_URL @ ''/api/trending''\<rparr>],
         logs = [(''Trending API error:'', FetchFailed)]\<rparr>)
   \<and> (fetch e \<lparr>req_method = HTTP_GET, url = BACKEND_URL @ ''/api/trending''\<rparr> = Resolved r
        \<and> json_parse e (body r) = None \<longrightarrow>
      trending_GET e =
        \<lparr>result = Inr (json_response
                         (JObj [(''error'', JStr ''Failed to get trending videos'')]) 500),
         calls = [\<lparr>req_method = HTTP_GET, url = BACKEND_URL @ ''/api/trending''\<rparr>],
         logs = [(''Trending API error:'', SyntaxError)]\<rparr>)
   \<and> (searchParams_get ps ''q'' = Some q \<and> q \<noteq> []
        \<and> fetch e \<lparr>req_method = HTTP_GET,
                    url = BACKEND_URL @ ''/api/search?q='' @ encodeURIComponent q
                          @ ''&max_results=''
                          @ or_string (searchParams_get ps ''max_results'') ''20''\<rparr> = Rejected \<longrightarrow>
      search_GET e ps =
        \<lparr>result = Inr (json_response (JObj [(''error'', JStr ''Failed to search videos'')]) 500),
         calls = [\<lparr>req_method = HTTP_GET,
                   url = BACKEND_URL @ ''/api/search?q='' @ encodeURIComponent q
                         @ ''&max_results=''
                         @ or_string (searchParams_get ps ''max_results'') ''20''\<rparr>],
         logs = [(''Search API error:'', FetchFailed)]\<rparr>)
   \<and> (searchParams_get ps ''q'' = Some q \<and> q \<noteq> []
        \<and> fetch e \<lparr>req_method = HTTP_GET,
                    url = BACKEND_URL @ ''/api/search?q='' @ encodeURIComponent q
                          @ ''&max_results=''
                          @ or_string (searchParams_get ps ''max_results'') ''20''\<rparr> = Resolved r
        \<and> json_parse e (body r) = None \<longrightarrow>
      search_GET e ps =
        \<lparr>result = Inr (json_response (JObj [(''error'', JStr ''Failed to search videos'')]) 500),
         calls = [\<lparr>req_method = HTTP_GET,
                   url = BACKEND_URL @ ''/api/search?q='' @ encodeURIComponent q
                         @ ''&max_results=''
                         @ or_string (searchParams_get ps ''max_results'') ''20''\<rparr>],
         logs = [(''Search API error:'', SyntaxError)]\<rparr>)
   \<and> (searchParams_get qs ''url'' = Some u \<and> u \<noteq> []
        \<and> fetch e \<lparr>req_method = HTTP_GET,
                    url = BACKEND_URL @ ''/api/video/info?url='' @ encodeURIComponent u\<rparr>
          = Rejected \<longrightarrow>
      video_info_GET e qs =
        \<lparr>result = Inr (json_response
                         (JObj [(''error'', JStr ''Failed to get video information'')]) 500),
         calls = [\<lparr>req_method = HTTP_GET,
                   url = BACKEND_URL @ ''/api/video/info?url='' @ encodeURIComponent u\<rparr>],
         logs = [(''Video info API error:'', FetchFailed)]\<rparr>)
   \<and> (searchParams_get qs ''url'' = Some u \<and> u \<noteq> []
        \<and> fetch e \<lparr>req_method = HTTP_GET,
                    url = BACKEND_URL @ ''/api/video/info?url='' @ encodeURIComponent u\<rparr>
          = Resolved r
        \<and> ok r \<and> json_parse e (body r) = None \<longrightarrow>
      video_info_GET e qs =
        \<lparr>result = Inr (json_response
                         (JObj [(''error'', JStr ''Failed to get video information'')]) 500),
         calls = [\<lparr>req_method = HTTP_GET,
                   url = BACKEND_URL @ ''/api/video/info?url='' @ encodeURIComponent u\<rparr>],
         logs = [(''Video info API error:'', SyntaxError)]\<rparr>)
   \<and> (searchParams_get qs ''url'' = Some u \<and> u \<noteq> []
        \<and> fetch e \<lparr>req_method = HTTP_GET,
                    url = BACKEND_URL @ ''/api/video/info?url='' @ encodeURIComponent u\<rparr>
          = Resolved r
        \<and> \<not> ok r \<and> 200 \<le> status r \<and> status r \<le> 599 \<and> status r \<noteq> 304
        \<and> json_parse e (body r) = None \<longrightarrow>
      video_info_GET e qs =
        \<lparr>result = Inr (json_response (JObj [(''error'', JStr ''Unknown error'')]) (status r)),
         calls = [\<lparr>req_method = HTTP_GET,
                   url = BACKEND_URL @ ''/api/video/info?url='' @ encodeURIComponent u\<rparr>],
         logs = []\<rparr>)
   \<and> (fetch e \<lparr>req_method = HTTP_GET,
                url = BACKEND_URL @ ''/api/stream/'' @ encodeURIComponent filename\<rparr>
          = Rejected \<longrightarrow>
      stream_GET e filename =
        \<lparr>result = Inr (json_response (JObj [(''error'', JStr ''Failed to stream video'')]) 500),
         calls = [\<lparr>req_method = HTTP_GET,
                   url = BACKEND_URL @ ''/api/stream/'' @ encodeURIComponent filename\<rparr>],
         logs = [(''Stream API error:'', FetchFailed)]\<rparr>)
   \<and> (fetch e \<lparr>req_method = HTTP_DELETE,
                url = BACKEND_URL @ ''/api/library/'' @ encodeURIComponent filename\<rparr>
          = Rejected \<longrightarrow>
      library_DELETE e filename =
        \<lparr>result = Inr (json_response (JObj [(''error'', JStr ''Failed to delete video'')]) 500),
         calls = [\<lparr>req_method = HTTP_DELETE,
                   url = BACKEND_URL @ ''/api/library/'' @ encodeURIComponent filename\<rparr>],
         logs = [(''Delete video API error:'', FetchFailed)]\<rparr>)
   \<and> (fetch e \<lparr>req_method = HTTP_DELETE,
                url = BACKEND_URL @ ''/api/library/'' @ encodeURIComponent filename\<rparr>
          = Resolved r
        \<and> json_parse e (body r) = None \<longrightarrow>
      library_DELETE e filename =
        \<lparr>result = Inr (json_response (JObj [(''error'', JStr ''Failed to delete video'')]) 500),
         calls = [\<lparr>req_method = HTTP_DELETE,
                   url = BACKEND_URL @ ''/api/library/'' @ encodeURIComponent filename\<rparr>],
         logs = [(''Delete video API error:'', SyntaxError)]\<rparr>)
   \<and> (\<exists>resp. result (library_GET e) = Inr resp)
   \<and> (\<exists>resp. result (trending_GET e) = Inr resp)
   \<and> (\<exists>resp. result (search_GET e ps) = Inr resp)
   \<and> (\<exists>resp. result (video_info_GET e qs) = Inr resp)
   \<and> (\<exists>resp. result (stream_GET e filename) = Inr resp)
   \<and> (\<exists>resp. result (library_DELETE e filename) = Inr resp)"
  apply (intro conjI impI)
  apply ((elim conjE)?,
         (rule handlers_return
               rejected_library rejected_trending rejected_search rejected_video_info
               rejected_stream rejected_delete
               undecodable_library undecodable_trending undecodable_search
               undecodable_video_info absorbed_video_info undecodable_delete; assumption))+
  done

text \<open>
  Every handler on a backend that refuses the connection, every decoding handler on a
  backend that answers 200 with a body that is not JSON, and the information handler on a
  backend that answers 503 with such a body.
\<close>

theorem failures_become_500_witness:
  "library_GET (fixed_env Rejected []) =
     \<lparr>result = Inr (json_response (JObj [(''error'', JStr ''Failed to get library'')]) 500),
      calls = [\<lparr>req_method = HTTP_GET, url = ''http://localhost:8001/api/library''\<rparr>],
      logs = [(''Library API error:'', FetchFailed)]\<rparr>
   \<and> trending_GET (fixed_env Rejected []) =
     \<lparr>result = Inr (json_response (JObj [(''error'', JStr ''Failed to get trending videos'')]) 500),
      calls = [\<lparr>req_method = HTTP_GET, url = ''http://localhost:8001/api/trending''\<rparr>],
      logs = [(''Trending API error:'', FetchFailed)]\<rparr>
   \<and> search_GET (fixed_env Rejected []) [(''q'', ''test'')] =
     \<lparr>result = Inr (json_response (JObj [(''error'', JStr ''Failed to search videos'')]) 500),
      calls = [\<lparr>req_method = HTTP_GET,
                url = ''http://localhost:8001/api/search?q=test&max_results=20''\<rparr>],
      logs = [(''Search API error:'', FetchFailed)]\<rparr>
   \<and> video_info_GET (fixed_env Rejected []) [(''url'', ''notaurl'')] =
     \<lparr>result = Inr (json_response
                      (JObj [(''error'', JStr ''Failed to get video information'')]) 500),
      calls = [\<lparr>req_method = HTTP_GET, url = ''http://localhost:8001/api/video/info?url=notaurl''\<rparr>],
      logs = [(''Video info API error:'', FetchFailed)]\<rparr>
   \<and> stream_GET (fixed_env Rejected []) ''clip.mp4'' =
     \<lparr>result = Inr (json_response (JObj [(''error'', JStr ''Failed to stream video'')]) 500),
      calls = [\<lparr>req_method = HTTP_GET, url = ''http://localhost:8001/api/stream/clip.mp4''\<rparr>],
      logs = [(''Stream API error:'', FetchFailed)]\<rparr>
   \<and> library_DELETE (fixed_env Rejected []) ''clip.mp4'' =
     \<lparr>result = Inr (json_response (JObj [(''error'', JStr ''Failed to delete video'')]) 500),
      calls = [\<lparr>req_method = HTTP_DELETE, url = ''http://localhost:8001/api/library/clip.mp4''\<rparr>],
      logs = [(''Delete video API error:'', FetchFailed)]\<rparr>
   \<and> library_GET (fixed_env (Resolved \<lparr>status = 200, headers = [], body = ''Bad Gateway''\<rparr>) []) =
     \<lparr>result = Inr (json_response (JObj [(''error'', JStr ''Failed to get library'')]) 500),
      calls = [\<lparr>req_method = HTTP_GET, url = ''http://localhost:8001/api/library''\<rparr>],
      logs = [(''Library API error:'', SyntaxError)]\<rparr>
   \<and> trending_GET (fixed_env (Resolved \<lparr>status = 200, headers = [], body = ''Bad Gateway''\<rparr>) []) =
     \<lparr>result = Inr (json_response (JObj [(''error'', JStr ''Failed to get trending videos'')]) 500),
      calls = [\<lparr>req_method = HTTP_GET, url = ''http://localhost:8001/api/trending''\<rparr>],
      logs = [(''Trending API error:'', SyntaxError)]\<rparr>
   \<and> search_GET (fixed_env (Resolved \<lparr>status = 200, headers = [], body = ''Bad Gateway''\<rparr>) [])
       [(''q'', ''test'')] =
     \<lparr>result = Inr (json_response (JObj [(''error'', JStr ''Failed to search videos'')]) 500),
      calls = [\<lparr>req_method = HTTP_GET,
                url = ''http://localhost:8001/api/search?q=test&max_results=20''\<rparr>],
      logs = [(''Search API error:'', SyntaxError)]\<rparr>
   \<and> video_info_GET (fixed_env (Resolved \<lparr>status = 200, headers = [], body = ''Bad Gateway''\<rparr>) [])
       [(''url'', ''notaurl'')] =
     \<lparr>result = Inr (json_response
                      (JObj [(''error'', JStr ''Failed to get video information'')]) 500),
      calls = [\<lparr>req_method = HTTP_GET, url = ''http://localhost:8001/api/video/info?url=notaurl''\<rparr>],
      logs = [(''Video info API error:'', SyntaxError)]\<rparr>
   \<and> library_DELETE (fixed_env (Resolved \<lparr>status = 200, headers = [], body = ''Bad Gateway''\<rparr>) [])
       ''clip.mp4'' =
     \<lparr>result = Inr (json_response (JObj [(''error'', JStr ''Failed to delete video'')]) 500),
      calls = [\<lparr>req_method = HTTP_DELETE, url = ''http://localhost:8001/api/library/clip.mp4''\<rparr>],
      logs = [(''Delete video API error:'', SyntaxError)]\<rparr>
   \<and> video_info_GET (fixed_env (Resolved \<lparr>status = 503, headers = [], body = ''Bad Gateway''\<rparr>) [])
       [(''url'', ''notaurl'')] =
     \<lparr>result = Inr (json_response (JObj [(''error'', JStr ''Unknown error'')]) 503),
      calls = [\<lparr>req_method = HTTP_GET, url = ''http://localhost:8001/api/video/info?url=notaurl''\<rparr>],
      logs = []\<rparr>"
proof -
  let ?s = "\<lparr>status = 503, headers = [], body = ''Bad Gateway''\<rparr>"
  let ?r = "\<lparr>status = 200, headers = [], body = ''Bad Gateway''\<rparr>"
  have u: "BACKEND_URL @ ''/api/library'' = ''http://localhost:8001/api/library''"
    "BACKEND_URL @ ''/api/trending'' = ''http://localhost:8001/api/trending''"
    "BACKEND_URL @ ''/api/search?q='' @ encodeURIComponent ''test'' @ ''&max_results=''
       @ or_string (searchParams_get [(''q'', ''test'')] ''max_results'') ''20''
     = ''http://localhost:8001/api/search?q=test&max_results=20''"
    "BACKEND_URL @ ''/api/video/info?url='' @ encodeURIComponent ''notaurl''
     = ''http://localhost:8001/api/video/info?url=notaurl''"
    "BACKEND_URL @ ''/api/stream/'' @ encodeURIComponent ''clip.mp4''
     = ''http://localhost:8001/api/stream/clip.mp4''"
    "BACKEND_URL @ ''/api/library/'' @ encodeURIComponent ''clip.mp4''
     = ''http://localhost:8001/api/library/clip.mp4''"
    by (simp_all add: BACKEND_URL_def encodeURIComponent_def uri_unreserved_def
        searchParams_get_def)
  have p: "searchParams_get [(''q'', ''test'')] ''q'' = Some ''test''"
    "searchParams_get [(''url'', ''notaurl'')] ''url'' = Some ''notaurl''"
    by (simp_all add: searchParams_get_def)
  have f: "\<And>req. fetch (fixed_env Rejected []) req = Rejected"
    "\<And>req. fetch (fixed_env (Resolved ?r) []) req = Resolved ?r"
    "json_parse (fixed_env (Resolved ?r) []) (body ?r) = None"
    "ok ?r"
    "\<And>req. fetch (fixed_env (Resolved ?s) []) req = Resolved ?s"
    "json_parse (fixed_env (Resolved ?s) []) (body ?s) = None"
    "\<not> ok ?s" "200 \<le> status ?s" "status ?s \<le> 599" "status ?s \<noteq> 304"
    by (simp_all add: fixed_env_def ok_def)
  have q: "''test'' \<noteq> []" "''notaurl'' \<noteq> []"
    by simp_all
  note a = failures_become_500
      [where e = "fixed_env Rejected []" and ps = "[(''q'', ''test'')]" and q = "''test''"
         and qs = "[(''url'', ''notaurl'')]" and u = "''notaurl''" and filename = "''clip.mp4''"]
  note b = failures_become_500
      [where e = "fixed_env (Resolved ?r) []" and r = ?r
         and ps = "[(''q'', ''test'')]" and q = "''test''"
         and qs = "[(''url'', ''notaurl'')]" and u = "''notaurl''" and filename = "''clip.mp4''"]
  note c = failures_become_500
      [where e = "fixed_env (Resolved ?s) []" and r = ?s
         and ps = "[(''q'', ''test'')]" and q = "''test''"
         and qs = "[(''url'', ''notaurl'')]" and u = "''notaurl''" and filename = "''clip.mp4''"]
  from a b c show ?thesis
    unfolding u p f by (simp add: q f)
qed

text \<open>
  Claim C7 as stated fails on the information handler: when the backend status is outside
  200..299, the rejection of \<open>response.json()\<close> is absorbed by the inner \<open>.catch\<close>. The
  response carries the backend's status and \<open>"Unknown error"\<close>, not 500 and the generic
  message, and nothing is logged.
\<close>

theorem failures_become_500_counterexample:
  "json_parse (fixed_env (Resolved \<lparr>status = 422, headers = [], body = ''Bad Gateway''\<rparr>) [])
      (body \<lparr>status = 422, headers = [], body = ''Bad Gateway''\<rparr>) = None
   \<and> video_info_GET (fixed_env (Resolved \<lparr>status = 422, headers = [], body = ''Bad Gateway''\<rparr>) [])
       [(''url'', ''notaurl'')] =
     \<lparr>result = Inr (json_response (JObj [(''error'', JStr ''Unknown error'')]) 422),
      calls = [\<lparr>req_method = HTTP_GET, url = ''http://localhost:8001/api/video/info?url=notaurl''\<rparr>],
      logs = []\<rparr>"
  by (simp add: video_info_GET_def fixed_env_def ok_def error_body_def platform_defs
      BACKEND_URL_def encodeURIComponent_def uri_unreserved_def)

subsection \<open>The search handler\<close>

text \<open>
  Claim C8, as the code has it. With \<open>q=test\<close> and \<open>max_results=5\<close> the search handler
  makes exactly one outbound call, a \<open>GET\<close> of \<open>/api/search?q=test&max_results=5\<close> at
  the backend origin. When \<open>JSON.parse\<close> decodes the backend's body, the handler returns
  the decoded value with status 200 as \<open>JSON.stringify\<close> writes it: the value itself
  when it holds no infinity, and otherwise the value with each infinity written as
  \<open>null\<close>.
\<close>

theorem search_relays_query:
  assumes "searchParams_get ps ''q'' = Some ''test''"
    and "searchParams_get ps ''max_results'' = Some ''5''"
  shows "calls (search_GET e ps) =
           [\<lparr>req_method = HTTP_GET, url = ''http://localhost:8001/api/search?q=test&max_results=5''\<rparr>]
       \<and> (fetch e \<lparr>req_method = HTTP_GET,
                    url = ''http://localhost:8001/api/search?q=test&max_results=5''\<rparr> = Resolved r
            \<and> json_parse e (body r) = Some j
          \<longrightarrow> result (search_GET e ps) = Inr (json_response (JSON_stringify j) 200)
              \<and> (finite_numbers j \<longrightarrow> result (search_GET e ps) = Inr (json_response j 200)))"
proof -
  have u: "BACKEND_URL @ ''/api/search?q='' @ encodeURIComponent ''test''
             @ ''&max_results='' @ or_string (Some ''5'') ''20''
           = ''http://localhost:8001/api/search?q=test&max_results=5''"
    by (simp add: BACKEND_URL_def encodeURIComponent_def uri_unreserved_def)
  have q: "''test'' \<noteq> []" by simp
  have c: "calls (search_GET e ps) =
           [\<lparr>req_method = HTTP_GET, url = ''http://localhost:8001/api/search?q=test&max_results=5''\<rparr>]"
    unfolding search_call [OF assms(1) q] assms(2) u calls_try_catch ..
  have r: "fetch e \<lparr>req_method = HTTP_GET,
                    url = ''http://localhost:8001/api/search?q=test&max_results=5''\<rparr> = Resolved r
            \<and> json_parse e (body r) = Some j
          \<longrightarrow> result (search_GET e ps) = Inr (json_response (JSON_stringify j) 200)"
    unfolding search_call [OF assms(1) q] assms(2) u
    by (simp add: try_catch_def bind_exn_def await_fetch_def response_json_def
        NextResponse_json_fixed)
  from c r show ?thesis by (simp add: JSON_stringify_finite)
qed

text \<open>A body whose numbers are finite comes back as it was decoded.\<close>

theorem search_relays_query_witness:
  \<open>calls (search_GET
      (fixed_env (Resolved \<lparr>status = 200, headers = [], body = ''{"results":[{"views":12}]}''\<rparr>)
         [(''{"results":[{"views":12}]}'',
           JObj [(''results'', JArr [JObj [(''views'', JNum (Finite 12))]])])])
      [(''q'', ''test''), (''max_results'', ''5'')])
     = [\<lparr>req_method = HTTP_GET, url = ''http://localhost:8001/api/search?q=test&max_results=5''\<rparr>]
   \<and> finite_numbers (JObj [(''results'', JArr [JObj [(''views'', JNum (Finite 12))]])])
   \<and> result (search_GET
      (fixed_env (Resolved \<lparr>status = 200, headers = [], body = ''{"results":[{"views":12}]}''\<rparr>)
         [(''{"results":[{"views":12}]}'',
           JObj [(''results'', JArr [JObj [(''views'', JNum (Finite 12))]])])])
      [(''q'', ''test''), (''max_results'', ''5'')])
     = Inr (json_response (JObj [(''results'', JArr [JObj [(''views'', JNum (Finite 12))]])]) 200)\<close>
proof -
  let ?j = "JObj [(''results'', JArr [JObj [(''views'', JNum (Finite 12))]])]"
  let ?r = \<open>\<lparr>status = 200, headers = [], body = ''{"results":[{"views":12}]}''\<rparr>\<close>
  let ?e = \<open>fixed_env (Resolved ?r) [(''{"results":[{"views":12}]}'', ?j)]\<close>
  let ?ps = "[(''q'', ''test''), (''max_results'', ''5'')]"
  have p: "searchParams_get ?ps ''q'' = Some ''test''"
    "searchParams_get ?ps ''max_results'' = Some ''5''"
    by (simp_all add: searchParams_get_def)
  have f: "fetch ?e \<lparr>req_method = HTTP_GET,
                     url = ''http://localhost:8001/api/search?q=test&max_results=5''\<rparr> = Resolved ?r
           \<and> json_parse ?e (body ?r) = Some ?j"
    by (simp add: fixed_env_def)
  have n: "finite_numbers ?j" by simp
  from search_relays_query [OF p, of ?e ?r ?j] f n
  show ?thesis by simp
qed

text \<open>
  Claim C8 as stated fails on a valid JSON body with a number literal out of the double
  range: \<open>JSON.parse\<close> decodes \<open>1e400\<close> to \<open>Infinity\<close>, and \<open>NextResponse.json\<close>
  writes \<open>null\<close> for it, so the body returned is \<open>{"views":null}\<close> and not the
  backend's value.
\<close>

theorem search_relays_query_counterexample:
  \<open>json_parse
      (fixed_env (Resolved \<lparr>status = 200, headers = [], body = ''{"views":1e400}''\<rparr>)
         [(''{"views":1e400}'', JObj [(''views'', JNum PosInfinity)])])
      (body \<lparr>status = 200, headers = [], body = ''{"views":1e400}''\<rparr>)
     = Some (JObj [(''views'', JNum PosInfinity)])
   \<and> result (search_GET
      (fixed_env (Resolved \<lparr>status = 200, headers = [], body = ''{"views":1e400}''\<rparr>)
         [(''{"views":1e400}'', JObj [(''views'', JNum PosInfinity)])])
      [(''q'', ''test''), (''max_results'', ''5'')])
     = Inr (json_response (JObj [(''views'', JNull)]) 200)
   \<and> result (search_GET
      (fixed_env (Resolved \<lparr>status = 200, headers = [], body = ''{"views":1e400}''\<rparr>)
         [(''{"views":1e400}'', JObj [(''views'', JNum PosInfinity)])])
      [(''q'', ''test''), (''max_results'', ''5'')])
     \<noteq> Inr (json_response (JObj [(''views'', JNum PosInfinity)]) 200)\<close>
  by (simp add: search_GET_def fixed_env_def platform_defs json_response_def)

text \<open>
  Claim C9. When \<open>q\<close> is present and \<open>max_results\<close> is absent or empty, the one
  outbound call of the search handler carries \<open>max_results=20\<close>.
\<close>

theorem search_default_max_results:
  assumes "searchParams_get ps ''q'' = Some q" and "q \<noteq> []"
    and "searchParams_get ps ''max_results'' = None \<or> searchParams_get ps ''max_results'' = Some []"
  shows "calls (search_GET e ps) =
           [\<lparr>req_method = HTTP_GET,
             url = BACKEND_URL @ ''/api/search?q='' @ encodeURIComponent q @ ''&max_results=20''\<rparr>]"
  using assms(3)
  unfolding search_call [OF assms(1,2)] calls_try_catch
  by auto

text \<open>Once with \<open>max_results\<close> absent, once with it empty.\<close>

theorem search_default_max_results_witness:
  "calls (search_GET (fixed_env Rejected []) [(''q'', ''cats & dogs'')]) =
     [\<lparr>req_method = HTTP_GET,
       url = ''http://localhost:8001/api/search?q=cats%20%26%20dogs&max_results=20''\<rparr>]
   \<and> calls (search_GET (fixed_env Rejected []) [(''max_results'', []), (''q'', ''cats & dogs'')]) =
     [\<lparr>req_method = HTTP_GET,
       url = ''http://localhost:8001/api/search?q=cats%20%26%20dogs&max_results=20''\<rparr>]"
proof -
  let ?ps1 = "[(''q'', ''cats & dogs'')]"
  let ?ps2 = "[(''max_results'', []), (''q'', ''cats & dogs'')]"
  have p1: "searchParams_get ?ps1 ''q'' = Some ''cats & dogs''" "''cats & dogs'' \<noteq> []"
    "searchParams_get ?ps1 ''max_results'' = None \<or> searchParams_get ?ps1 ''max_results'' = Some []"
    by (simp_all add: searchParams_get_def)
  have p2: "searchParams_get ?ps2 ''q'' = Some ''cats & dogs''" "''cats & dogs'' \<noteq> []"
    "searchParams_get ?ps2 ''max_results'' = None \<or> searchParams_get ?ps2 ''max_results'' = Some []"
    by (simp_all add: searchParams_get_def)
  have u: "BACKEND_URL @ ''/api/search?q='' @ encodeURIComponent ''cats & dogs'' @ ''&max_results=20''
           = ''http://localhost:8001/api/search?q=cats%20%26%20dogs&max_results=20''"
    by (simp add: BACKEND_URL_def encodeURIComponent_def uri_unreserved_def percent_encode_def
        hex_digit_def)
  from search_default_max_results [OF p1] search_default_max_results [OF p2] u
  show ?thesis by simp
qed

subsection \<open>The third message of the information handler\<close>

text \<open>
  Claim C10, as the code has it. Let the backend answer the information handler's call
  with a status outside 200..299 that the platform accepts for a response with a body
  (within 200..599 and not 304), and let the body decode to a JSON value other than
  \<open>null\<close> whose \<open>detail\<close> is absent or falsy. Then the handler returns the backend's
  status with the body \<open>{"error": "Failed to get video info"}\<close>, and logs nothing.
\<close>

theorem video_info_fallback_message:
  assumes "searchParams_get ps ''url'' = Some u" and "u \<noteq> []"
    and "fetch e \<lparr>req_method = HTTP_GET,
                  url = BACKEND_URL @ ''/api/video/info?url='' @ encodeURIComponent u\<rparr>
         = Resolved r"
    and "\<not> ok r" and "200 \<le> status r" and "status r \<le> 599" and "status r \<noteq> 304"
    and "json_parse e (body r) = Some j" and "j \<noteq> JNull"
    and "get_detail j = Inr None \<or> (\<exists>v. get_detail j = Inr (Some v) \<and> \<not> truthy v)"
  shows "video_info_GET e ps =
           \<lparr>result = Inr (json_response (JObj [(''error'', JStr ''Failed to get video info'')])
                            (status r)),
            calls = [\<lparr>req_method = HTTP_GET,
                      url = BACKEND_URL @ ''/api/video/info?url='' @ encodeURIComponent u\<rparr>],
            logs = []\<rparr>"
  using assms(8,10)
  by (auto simp add: video_info_not_ok [OF assms(1-4)] NextResponse_json_relayed [OF assms(4-7)]
      try_catch_def bind_exn_def error_body_def)

text \<open>A body \<open>{"detail":null}\<close> with status 503, and a body \<open>[]\<close> with status 404.\<close>

theorem video_info_fallback_message_witness:
  \<open>video_info_GET
      (fixed_env (Resolved \<lparr>status = 503, headers = [], body = ''{"detail":null}''\<rparr>)
         [(''{"detail":null}'', JObj [(''detail'', JNull)])])
      [(''url'', ''notaurl'')]
     = \<lparr>result = Inr (json_response (JObj [(''error'', JStr ''Failed to get video info'')]) 503),
        calls = [\<lparr>req_method = HTTP_GET, url = ''http://localhost:8001/api/video/info?url=notaurl''\<rparr>],
        logs = []\<rparr>
   \<and> video_info_GET
      (fixed_env (Resolved \<lparr>status = 404, headers = [], body = ''[]''\<rparr>) [(''[]'', JArr [])])
      [(''url'', ''notaurl'')]
     = \<lparr>result = Inr (json_response (JObj [(''error'', JStr ''Failed to get video info'')]) 404),
        calls = [\<lparr>req_method = HTTP_GET, url = ''http://localhost:8001/api/video/info?url=notaurl''\<rparr>],
        logs = []\<rparr>\<close>
proof -
  let ?t1 = \<open>[(''{"detail":null}'', JObj [(''detail'', JNull)])]\<close>
  let ?r1 = \<open>\<lparr>status = 503, headers = [], body = ''{"detail":null}''\<rparr>\<close>
  let ?t2 = \<open>[(''[]'', JArr [])]\<close>
  let ?r2 = \<open>\<lparr>status = 404, headers = [], body = ''[]''\<rparr>\<close>
  let ?ps = "[(''url'', ''notaurl'')]"
  let ?req = "\<lparr>req_method = HTTP_GET,
               url = BACKEND_URL @ ''/api/video/info?url='' @ encodeURIComponent ''notaurl''\<rparr>"
  have p: "searchParams_get ?ps ''url'' = Some ''notaurl''" "''notaurl'' \<noteq> []"
    by (simp_all add: searchParams_get_def)
  have u: "BACKEND_URL @ ''/api/video/info?url='' @ encodeURIComponent ''notaurl''
           = ''http://localhost:8001/api/video/info?url=notaurl''"
    by (simp add: BACKEND_URL_def encodeURIComponent_def uri_unreserved_def)
  have f1: "fetch (fixed_env (Resolved ?r1) ?t1) ?req = Resolved ?r1"
    and f2: "fetch (fixed_env (Resolved ?r2) ?t2) ?req = Resolved ?r2"
    by (simp_all add: fixed_env_def)
  have s1: "\<not> ok ?r1" "200 \<le> status ?r1" "status ?r1 \<le> 599" "status ?r1 \<noteq> 304"
    and s2: "\<not> ok ?r2" "200 \<le> status ?r2" "status ?r2 \<le> 599" "status ?r2 \<noteq> 304"
    by (simp_all add: ok_def)
  have d1: "json_parse (fixed_env (Resolved ?r1) ?t1) (body ?r1) = Some (JObj [(''detail'', JNull)])"
    "JObj [(''detail'', JNull)] \<noteq> JNull"
    "get_detail (JObj [(''detail'', JNull)]) = Inr None
     \<or> (\<exists>v. get_detail (JObj [(''detail'', JNull)]) = Inr (Some v) \<and> \<not> truthy v)"
    by (simp_all add: fixed_env_def)
  have d2: "json_parse (fixed_env (Resolved ?r2) ?t2) (body ?r2) = Some (JArr [])"
    "JArr [] \<noteq> JNull"
    "get_detail (JArr []) = Inr None \<or> (\<exists>v. get_detail (JArr []) = Inr (Some v) \<and> \<not> truthy v)"
    by (simp_all add: fixed_env_def)
  from video_info_fallback_message [OF p f1 s1 d1] video_info_fallback_message [OF p f2 s2 d2] u
  show ?thesis by simp
qed

text \<open>
  Claim C10 as stated fails in three places. The body \<open>null\<close> decodes, and reading
  \<open>detail\<close> of it raises; with the status 999, or 304, the platform refuses to build the
  response. Each time the exception reaches the handler's \<open>catch\<close>: the response is
  status 500 with \<open>"Failed to get video information"\<close>, and the exception is logged.
\<close>

theorem video_info_fallback_message_counterexample:
  \<open>video_info_GET
      (fixed_env (Resolved \<lparr>status = 422, headers = [], body = ''null''\<rparr>) [(''null'', JNull)])
      [(''url'', ''notaurl'')]
     = \<lparr>result = Inr (json_response
                        (JObj [(''error'', JStr ''Failed to get video information'')]) 500),
        calls = [\<lparr>req_method = HTTP_GET, url = ''http://localhost:8001/api/video/info?url=notaurl''\<rparr>],
        logs = [(''Video info API error:'', TypeError)]\<rparr>
   \<and> video_info_GET
      (fixed_env (Resolved \<lparr>status = 999, headers = [], body = ''{}''\<rparr>) [(''{}'', JObj [])])
      [(''url'', ''notaurl'')]
     = \<lparr>result = Inr (json_response
                        (JObj [(''error'', JStr ''Failed to get video information'')]) 500),
        calls = [\<lparr>req_method = HTTP_GET, url = ''http://localhost:8001/api/video/info?url=notaurl''\<rparr>],
        logs = [(''Video info API error:'', RangeError)]\<rparr>
   \<and> video_info_GET
      (fixed_env (Resolved \<lparr>status = 304, headers = [], body = ''{}''\<rparr>) [(''{}'', JObj [])])
      [(''url'', ''notaurl'')]
     = \<lparr>result = Inr (json_response
                        (JObj [(''error'', JStr ''Failed to get video information'')]) 500),
        calls = [\<lparr>req_method = HTTP_GET, url = ''http://localhost:8001/api/video/info?url=notaurl''\<rparr>],
        logs = [(''Video info API error:'', TypeError)]\<rparr>\<close>
  by (simp add: video_info_GET_def fixed_env_def ok_def error_body_def platform_defs
      BACKEND_URL_def encodeURIComponent_def uri_unreserved_def)

end
